theory Spec2Isabelle
  imports Main "HOL-Library.Sublist" "HOL-Library.Multiset" "HOL-Library.AList"
begin

section \<open>Go strings and the standard-library functions the bot uses\<close>

text \<open>
  A Go string is a sequence of bytes, here a \<open>string\<close>. The source holds a few characters
  outside ASCII (emoji, bullet, dash); they are written as their UTF-8 bytes.
\<close>

type_synonym error = string

definition nl :: string where
  "nl = [CHR 0x0A]"

definition squote :: string where
  "squote = [CHR 0x27]"

definition bullet :: string where
  "bullet = [CHR 0xE2, CHR 0x80, CHR 0xA2]"

definition emdash :: string where
  "emdash = [CHR 0xE2, CHR 0x80, CHR 0x94]"

definition cross_mark :: string where
  "cross_mark = [CHR 0xE2, CHR 0x9D, CHR 0x8C]"

definition high_voltage :: string where
  "high_voltage = [CHR 0xE2, CHR 0x9A, CHR 0xA1]"

definition open_book :: string where
  "open_book = [CHR 0xF0, CHR 0x9F, CHR 0x93, CHR 0x96]"

definition package_box :: string where
  "package_box = [CHR 0xF0, CHR 0x9F, CHR 0x93, CHR 0xA6]"

definition wrench :: string where
  "wrench = [CHR 0xF0, CHR 0x9F, CHR 0x94, CHR 0xA7]"

definition test_tube :: string where
  "test_tube = [CHR 0xF0, CHR 0x9F, CHR 0xA7, CHR 0xAA]"

definition brick :: string where
  "brick = [CHR 0xF0, CHR 0x9F, CHR 0xA7, CHR 0xB1]"

definition triangular_ruler :: string where
  "triangular_ruler = [CHR 0xF0, CHR 0x9F, CHR 0x93, CHR 0x90]"

definition money_bag :: string where
  "money_bag = [CHR 0xF0, CHR 0x9F, CHR 0x92, CHR 0xB0]"

definition rocket :: string where
  "rocket = [CHR 0xF0, CHR 0x9F, CHR 0x9A, CHR 0x80]"

definition clipboard :: string where
  "clipboard = [CHR 0xF0, CHR 0x9F, CHR 0x93, CHR 0x8B]"

definition orange_diamond :: string where
  "orange_diamond = [CHR 0xF0, CHR 0x9F, CHR 0x94, CHR 0xB8]"

subsection \<open>Runes\<close>

text \<open>
  Package \<open>strings\<close> reads a string rune by rune. \<open>decodeRune c0 rest\<close> is
  \<open>utf8.DecodeRuneInString\<close> on the bytes \<open>c0 # rest\<close>: the rune that starts at \<open>c0\<close>
  and the number of bytes it takes after \<open>c0\<close>. A byte that starts no well-formed
  encoding (too short, out of range, too long a form, a surrogate) is the rune
  \<open>RuneError\<close> of width one.
\<close>

type_synonym rune = int

definition RuneError :: rune where
  "RuneError = 0xFFFD"

definition inRange :: "int \<Rightarrow> int \<Rightarrow> char \<Rightarrow> bool" where
  "inRange lo hi c \<longleftrightarrow> lo \<le> (of_char c :: int) \<and> (of_char c :: int) \<le> hi"

definition low6 :: "char \<Rightarrow> int" where
  "low6 c = (of_char c :: int) mod 64"

definition decodeRune :: "char \<Rightarrow> string \<Rightarrow> rune \<times> nat" where
  "decodeRune c0 rest =
     (let b0 = (of_char c0 :: int) in
      if b0 < 0x80 then (b0, 0)
      else if 0xC2 \<le> b0 \<and> b0 \<le> 0xDF then
        (case rest of
           c1 # _ \<Rightarrow>
             if inRange 0x80 0xBF c1 then ((b0 mod 32) * 64 + low6 c1, 1) else (RuneError, 0)
         | _ \<Rightarrow> (RuneError, 0))
      else if 0xE0 \<le> b0 \<and> b0 \<le> 0xEF then
        (case rest of
           c1 # c2 # _ \<Rightarrow>
             if inRange (if b0 = 0xE0 then 0xA0 else 0x80) (if b0 = 0xED then 0x9F else 0xBF) c1 \<and>
                inRange 0x80 0xBF c2
             then ((b0 mod 16) * 4096 + low6 c1 * 64 + low6 c2, 2) else (RuneError, 0)
         | _ \<Rightarrow> (RuneError, 0))
      else if 0xF0 \<le> b0 \<and> b0 \<le> 0xF4 then
        (case rest of
           c1 # c2 # c3 # _ \<Rightarrow>
             if inRange (if b0 = 0xF0 then 0x90 else 0x80) (if b0 = 0xF4 then 0x8F else 0xBF) c1 \<and>
                inRange 0x80 0xBF c2 \<and> inRange 0x80 0xBF c3
             then ((b0 mod 8) * 262144 + low6 c1 * 4096 + low6 c2 * 64 + low6 c3, 3)
             else (RuneError, 0)
         | _ \<Rightarrow> (RuneError, 0))
      else (RuneError, 0))"

text \<open>
  \<open>runes s\<close> is what \<open>for _, r := range s\<close> meets: every rune of \<open>s\<close> from left to
  right, each with the bytes it was read from.
\<close>

fun runes :: "string \<Rightarrow> (rune \<times> string) list" where
  "runes [] = []"
| "runes (c # cs) =
     (fst (decodeRune c cs), c # take (snd (decodeRune c cs)) cs) #
     runes (drop (snd (decodeRune c cs)) cs)"

text \<open>
  \<open>encodeRune\<close> is \<open>utf8.AppendRune\<close>: the UTF-8 bytes of a rune, and those of
  \<open>RuneError\<close> for a surrogate or a number that is no code point.
\<close>

definition encodeRune :: "rune \<Rightarrow> string" where
  "encodeRune r =
     (if 0 \<le> r \<and> r \<le> 0x7F then [char_of r]
      else if 0 \<le> r \<and> r \<le> 0x7FF then [char_of (0xC0 + r div 64), char_of (0x80 + r mod 64)]
      else if r < 0 \<or> 0x10FFFF < r \<or> (0xD800 \<le> r \<and> r \<le> 0xDFFF) then [CHR 0xEF, CHR 0xBF, CHR 0xBD]
      else if r \<le> 0xFFFF then
        [char_of (0xE0 + r div 4096), char_of (0x80 + r div 64 mod 64), char_of (0x80 + r mod 64)]
      else
        [char_of (0xF0 + r div 262144), char_of (0x80 + r div 4096 mod 64),
         char_of (0x80 + r div 64 mod 64), char_of (0x80 + r mod 64)])"

subsection \<open>White space\<close>

text \<open>
  \<open>unicode.IsSpace\<close>: in Latin-1 the characters tab, line feed, vertical tab, form feed,
  carriage return, space, U+0085 and U+00A0; beyond Latin-1 the characters with the
  Unicode property White_Space.
\<close>

definition IsSpace :: "rune \<Rightarrow> bool" where
  "IsSpace r \<longleftrightarrow>
     (if r \<le> 0xFF then (9 \<le> r \<and> r \<le> 13) \<or> r = 0x20 \<or> r = 0x85 \<or> r = 0xA0
      else r = 0x1680 \<or> (0x2000 \<le> r \<and> r \<le> 0x200A) \<or> r = 0x2028 \<or> r = 0x2029 \<or>
           r = 0x202F \<or> r = 0x205F \<or> r = 0x3000)"

text \<open>
  \<open>strings.TrimSpace\<close> cuts the white-space runes at both ends. The source reads the
  end of the string backwards; UTF-8 marks the first byte of every rune, so the runes it
  finds there are those of \<open>runes\<close>.
\<close>

definition TrimSpace :: "string \<Rightarrow> string" where
  "TrimSpace s =
     concat (map snd (rev (dropWhile (\<lambda>(r, bs). IsSpace r)
       (rev (dropWhile (\<lambda>(r, bs). IsSpace r) (runes s))))))"

text \<open>
  \<open>strings.Fields\<close> walks the runes once: a white-space rune ends the field being read,
  if there is one, and any other rune extends it by its bytes. \<open>tok\<close> is the field read
  so far. (On a string of ASCII bytes the source takes a shorter way to the same fields.)
\<close>

fun fieldsFrom :: "string \<Rightarrow> (rune \<times> string) list \<Rightarrow> string list" where
  "fieldsFrom tok [] = (if tok = [] then [] else [tok])"
| "fieldsFrom tok ((r, bs) # rest) =
     (if IsSpace r then (if tok = [] then fieldsFrom [] rest else tok # fieldsFrom [] rest)
      else fieldsFrom (tok @ bs) rest)"

definition Fields :: "string \<Rightarrow> string list" where
  "Fields s = fieldsFrom [] (runes s)"

subsection \<open>Lower case\<close>

text \<open>
  \<open>unicode.ToLower\<close> adds 32 to the ASCII letters \<open>A\<close> to \<open>Z\<close>, leaves the other ASCII
  runes, and looks every other rune up in the case tables of package \<open>unicode\<close>
  (\<open>To(LowerCase, r)\<close>). The tables are not part of the repository: the look-up is the
  parameter \<open>lowerCase\<close> of everything that lower-cases, and each theorem holds for
  every such function.
\<close>

definition toLowerByte :: "char \<Rightarrow> char" where
  "toLowerByte c =
     (if 65 \<le> (of_char c :: nat) \<and> (of_char c :: nat) \<le> 90
      then char_of ((of_char c :: nat) + 32) else c)"

definition toLowerRune :: "(rune \<Rightarrow> rune) \<Rightarrow> rune \<Rightarrow> rune" where
  "toLowerRune lowerCase r =
     (if r \<le> 0x7F then (if 65 \<le> r \<and> r \<le> 90 then r + 32 else r) else lowerCase r)"

text \<open>
  \<open>strings.ToLower\<close>: a string of ASCII bytes is lower-cased byte by byte; any other
  string goes through \<open>strings.Map\<close>, which writes the lower case of every rune in UTF-8
  and drops a rune whose image is negative. (Up to the first rune that changes \<open>Map\<close>
  copies the bytes; they are the UTF-8 bytes of the runes they were read as.)
\<close>

definition ToLower :: "(rune \<Rightarrow> rune) \<Rightarrow> string \<Rightarrow> string" where
  "ToLower lowerCase s =
     (if list_all (\<lambda>c. (of_char c :: nat) < 0x80) s then map toLowerByte s
      else concat (map (\<lambda>(r, bs). let r' = toLowerRune lowerCase r
                                   in if r' < 0 then [] else encodeRune r') (runes s)))"

text \<open>Decimal digits of a number, as \<open>%d\<close> and \<open>time.Format\<close> print them.\<close>

definition digit :: "nat \<Rightarrow> char" where
  "digit d = char_of (48 + d)"

fun itoa :: "nat \<Rightarrow> string" where
  "itoa n = (if n < 10 then [digit n] else itoa (n div 10) @ [digit (n mod 10)])"

declare itoa.simps [simp del]

text \<open>
  \<open>appendInt\<close> of package \<open>time\<close>: a minus sign for a negative number, then the digits,
  padded with zeros on the left up to \<open>width\<close>.
\<close>

definition appendInt :: "int \<Rightarrow> nat \<Rightarrow> string" where
  "appendInt x width =
     (let ds = itoa (nat \<bar>x\<bar>)
      in (if x < 0 then ''-'' else '''') @ replicate (width - length ds) (CHR ''0'') @ ds)"

text \<open>\<open>%v\<close> of an error value: the message, or \<open><nil>\<close> for no error.\<close>

definition fmt_err :: "error option \<Rightarrow> string" where
  "fmt_err e = (case e of None \<Rightarrow> ''<nil>'' | Some m \<Rightarrow> m)"

section \<open>Events, effects and the outside world\<close>

record MessageEvent =
  BotID :: string
  Text :: string
  User :: string
  Channel :: string

text \<open>
  What a handler does to the outside: a line given to the logger, a message posted to a
  channel, or a run-time panic, after which nothing more happens.
\<close>

datatype effect = Log string | PostMessage string string | Panic string

fun posts :: "effect list \<Rightarrow> (string \<times> string) list" where
  "posts [] = []"
| "posts (PostMessage ch txt # es) = (ch, txt) # posts es"
| "posts (_ # es) = posts es"

record SizeSpec =
  CPU :: string
  RAM :: string

text \<open>A broken-down point in time, as \<open>time.Format\<close> reads it from a \<open>time.Time\<close>.\<close>

record Time =
  year :: int
  month :: nat
  day :: nat
  hour :: nat
  minute :: nat
  second :: nat

record Cluster =
  Name :: string
  Namespace :: string
  CreationTimestamp :: Time

text \<open>
  The answers of the outside world during one handler invocation: whether
  \<open>GetKubernetesClient\<close> returns an error, what the two list queries return, what the
  list call of the launch handler returns, whether posting to Slack fails, and the order
  in which \<open>range\<close> enumerates the two Go maps (Go leaves that order unspecified, and it
  may differ from one loop to the next).
\<close>

record env =
  getClientErr :: "error option"
  listKinds :: "error + Cluster list"
  listOpenshifts :: "error + Cluster list"
  listNilErr :: "error option"
  postErr :: "error option"
  rangeSizes :: "string list"
  rangeCommands :: "string list"

text \<open>
  A Go map is an association list with distinct keys; \<open>map_of\<close> reads it. A \<open>range\<close>
  loop over the map meets every key once, in an order of the run time's choice: the order
  is a list \<open>ks\<close> of the keys, and the loop meets the entries \<open>range_map m ks\<close>.
\<close>

definition is_range_order :: "('k \<times> 'v) list \<Rightarrow> 'k list \<Rightarrow> bool" where
  "is_range_order m ks \<longleftrightarrow> mset ks = mset (map fst m)"

definition range_map :: "('k \<times> 'v) list \<Rightarrow> 'k list \<Rightarrow> ('k \<times> 'v) list" where
  "range_map m ks = concat (map (\<lambda>k. case map_of m k of None \<Rightarrow> [] | Some v \<Rightarrow> [(k, v)]) ks)"

section \<open>The catalog and the launch handler\<close>

definition launchUsage :: string where
  "launchUsage =
     package_box @ '' *Launch Command '' @ emdash @ '' Detailed Usage*'' @ nl @ nl @
     ''This command provisions a new cluster using a specified platform and resource tier.'' @ nl @ nl @
     wrench @ '' *Syntax*:'' @ nl @
     ''```'' @ nl @
     ''launch <cluster_type> <size>'' @ nl @
     ''```'' @ nl @ nl @
     test_tube @ '' *Examples*:'' @ nl @
     ''```'' @ nl @
     ''launch k8s large'' @ nl @
     ''launch openshift medium'' @ nl @
     ''```'' @ nl @ nl @
     brick @ '' *Supported Cluster Types*:'' @ nl @
     bullet @ '' `k8s` '' @ emdash @ '' Standard upstream Kubernetes cluster'' @ nl @
     bullet @ '' `openshift` '' @ emdash @ '' Red Hat OpenShift Container Platform'' @ nl @
     ''_Only these values are accepted. Input is case-insensitive._'' @ nl @ nl @
     triangular_ruler @ '' *Supported Sizes*:'' @ nl @
     bullet @ '' `medium` '' @ emdash @ '' 8 CPUs / 32 GB RAM'' @ nl @
     bullet @ '' `large` '' @ emdash @ '' 16 CPUs / 64 GB RAM'' @ nl @
     bullet @ '' `xlarge` '' @ emdash @ '' 32 CPUs / 128 GB RAM'' @ nl @ nl @
     money_bag @ '' *'' @ high_voltage @ '' Spot Instances (Cost Optimization)*:'' @ nl @
     ''All clusters are provisioned using **cloud spot instances** for maximum cost-efficiency.'' @ nl"

definition supportedClusterTypes :: "string list" where
  "supportedClusterTypes = [''k8s'', ''openshift'']"

definition supportedSizes :: "(string \<times> SizeSpec) list" where
  "supportedSizes =
     [(''medium'', \<lparr>CPU = ''8 CPUs'', RAM = ''32 GB RAM''\<rparr>),
      (''large'', \<lparr>CPU = ''16 CPUs'', RAM = ''64 GB RAM''\<rparr>),
      (''xlarge'', \<lparr>CPU = ''32 CPUs'', RAM = ''128 GB RAM''\<rparr>)]"

definition isSupportedClusterType :: "string \<Rightarrow> bool" where
  "isSupportedClusterType t \<longleftrightarrow> t \<in> set supportedClusterTypes"

definition sizeLine :: "string \<times> SizeSpec \<Rightarrow> string" where
  "sizeLine e = bullet @ '' `'' @ fst e @ ''`: '' @ CPU (snd e) @ '', '' @ RAM (snd e) @ nl"

text \<open>
  \<open>formatSupportedSizes\<close> ranges over the map \<open>supportedSizes\<close> and writes one line per
  entry; \<open>rangeSizes\<close> is the order in which this loop meets the entries.
\<close>

definition formatSupportedSizes :: "env \<Rightarrow> string" where
  "formatSupportedSizes w = concat (map sizeLine (range_map supportedSizes (rangeSizes w)))"

definition respondError :: "env \<Rightarrow> string \<Rightarrow> string \<Rightarrow> effect list" where
  "respondError w channel text =
     PostMessage channel text #
     (case postErr w of None \<Rightarrow> [] | Some e \<Rightarrow> [Log (''Slack error response failed: '' @ e)])"

text \<open>
  Both definitions of \<open>HandleLaunch\<close> in the source end with the same lines: the check
  of the cluster type, the check of the size, the log line and the confirmation.
  \<open>launchChecks\<close> is that common part, from \<open>clusterType := strings.ToLower(args[0])\<close>
  on; it is reached with at least two arguments only, so \<open>args ! 0\<close> and \<open>args ! 1\<close>
  are in range.
\<close>

definition launchChecks ::
  "(rune \<Rightarrow> rune) \<Rightarrow> env \<Rightarrow> MessageEvent \<Rightarrow> string list \<Rightarrow> effect list"
where
  "launchChecks lowerCase w event args =
     (let clusterType = ToLower lowerCase (args ! 0); size = ToLower lowerCase (args ! 1) in
      if \<not> isSupportedClusterType clusterType
      then respondError w (Channel event)
             (cross_mark @ '' Unsupported cluster type: *'' @ clusterType @ ''*'' @ nl @
              ''Supported types: `k8s`, `openshift`'')
      else
        case map_of supportedSizes size of
          None \<Rightarrow>
            respondError w (Channel event)
              (cross_mark @ '' Invalid size: *'' @ size @ ''*'' @ nl @ ''Valid sizes:'' @ nl @
               formatSupportedSizes w)
        | Some spec \<Rightarrow>
            Log (''Launching cluster: user='' @ User event @ '' type='' @ clusterType @
                 '' size='' @ size) #
            PostMessage (Channel event)
              (rocket @ '' Launching a *'' @ clusterType @ ''* cluster of size *'' @ size @
               ''* for <@'' @ User event @ ''>'' @ nl @
               bullet @ '' CPU: '' @ CPU spec @ nl @
               bullet @ '' Memory: '' @ RAM spec) #
            (case postErr w of None \<Rightarrow> []
             | Some e \<Rightarrow> [Log (''Error posting launch message: '' @ e)]))"

text \<open>\<open>HandleLaunch\<close> of \<open>internal/slack/commands/launch.go\<close>.\<close>

definition HandleLaunch ::
  "(rune \<Rightarrow> rune) \<Rightarrow> env \<Rightarrow> MessageEvent \<Rightarrow> string list \<Rightarrow> effect list"
where
  "HandleLaunch lowerCase w event args =
     (if length args < 2
      then respondError w (Channel event)
             (cross_mark @ '' Missing arguments.'' @ nl @ nl @ launchUsage)
      else launchChecks lowerCase w event args)"

text \<open>
  \<open>HandleLaunch\<close> of \<open>unnamed/part_002\<close>. After the check of the number of arguments
  it asks for a Kubernetes client, logs the error value whatever it is, and calls
  \<open>client.CrClient.List\<close>. \<open>GetKubernetesClient\<close> returns a nil client with every
  error, and reading the field \<open>CrClient\<close> of a nil pointer panics.
\<close>

definition HandleLaunch_part_002 ::
  "(rune \<Rightarrow> rune) \<Rightarrow> env \<Rightarrow> MessageEvent \<Rightarrow> string list \<Rightarrow> effect list"
where
  "HandleLaunch_part_002 lowerCase w event args =
     (if length args < 2
      then respondError w (Channel event)
             (cross_mark @ '' Missing arguments.'' @ nl @ nl @ launchUsage)
      else
        Log (''Error getting kubernetes clinet: '' @ fmt_err (getClientErr w)) #
        (case getClientErr w of
           Some err \<Rightarrow> [Panic ''invalid memory address or nil pointer dereference'']
         | None \<Rightarrow>
             Log (''Error getting mapt list: '' @ fmt_err (listNilErr w)) #
             launchChecks lowerCase w event args))"

section \<open>The list handler\<close>

text \<open>\<open>Format("2006-01-02 15:04:05")\<close> of a creation timestamp.\<close>

definition Format :: "Time \<Rightarrow> string" where
  "Format t =
     appendInt (year t) 4 @ ''-'' @ appendInt (int (month t)) 2 @ ''-'' @
     appendInt (int (day t)) 2 @ '' '' @ appendInt (int (hour t)) 2 @ '':'' @
     appendInt (int (minute t)) 2 @ '':'' @ appendInt (int (second t)) 2"

definition clusterEntry :: "string \<Rightarrow> Cluster \<Rightarrow> string" where
  "clusterEntry kind cluster =
     orange_diamond @ '' *'' @ Name cluster @ ''* ('' @ kind @ '')'' @ nl @
     ''   '' @ bullet @ '' Namespace: '' @ Namespace cluster @ nl @
     ''   '' @ bullet @ '' Created: '' @ Format (CreationTimestamp cluster) @ nl"

text \<open>
  The two loops of \<open>HandleList\<close> differ in the kind label only. Each step appends the
  entry to the message, then a line feed when \<open>clusterIndex < totalClusters - 1\<close>, and
  counts \<open>clusterIndex\<close> up. The state is the message and \<open>clusterIndex\<close>.
\<close>

fun writeClusters :: "string \<Rightarrow> nat \<Rightarrow> Cluster list \<Rightarrow> string \<times> nat \<Rightarrow> string \<times> nat" where
  "writeClusters kind totalClusters [] st = st"
| "writeClusters kind totalClusters (cluster # rest) (message, clusterIndex) =
     writeClusters kind totalClusters rest
       (message @ clusterEntry kind cluster @
          (if int clusterIndex < int totalClusters - 1 then nl else []),
        clusterIndex + 1)"

definition listHeader :: "nat \<Rightarrow> string" where
  "listHeader totalClusters =
     clipboard @ '' *Cluster List* ('' @ itoa totalClusters @ '' cluster'' @
     (if totalClusters = 1 then [] else ''s'') @ '')'' @ nl @ nl"

definition emptyListMessage :: string where
  "emptyListMessage =
     clipboard @ '' *Cluster List*'' @ nl @ nl @ ''No MAPT clusters currently running.''"

definition postListMessage :: "env \<Rightarrow> string \<Rightarrow> string \<Rightarrow> effect list" where
  "postListMessage w channel text =
     PostMessage channel text #
     (case postErr w of None \<Rightarrow> [] | Some e \<Rightarrow> [Log (''Error posting list message: '' @ e)])"

definition HandleList :: "env \<Rightarrow> MessageEvent \<Rightarrow> string list \<Rightarrow> effect list" where
  "HandleList w event args =
     (case getClientErr w of
        Some err \<Rightarrow>
          Log (''Error getting kubernetes client: '' @ err) #
          respondError w (Channel event) (cross_mark @ '' Failed to connect to Kubernetes cluster'')
      | None \<Rightarrow>
          (case listKinds w of
             Inl err \<Rightarrow>
               Log (''Error listing MAPT kind clusters: '' @ err) #
               respondError w (Channel event) (cross_mark @ '' Failed to retrieve cluster list'')
           | Inr kindsList \<Rightarrow>
               (case listOpenshifts w of
                  Inl err \<Rightarrow>
                    Log (''Error listing MAPT openshift clusters: '' @ err) #
                    respondError w (Channel event)
                      (cross_mark @ '' Failed to retrieve cluster list'')
                | Inr openshiftsList \<Rightarrow>
                    (let totalClusters = length kindsList + length openshiftsList in
                     if totalClusters = 0
                     then postListMessage w (Channel event) emptyListMessage
                     else
                       let st0 = (listHeader totalClusters, 0);
                           st1 = writeClusters ''Kubernetes'' totalClusters kindsList st0;
                           st2 = writeClusters ''OpenShift'' totalClusters openshiftsList st1
                       in
                         Log (''Listed '' @ itoa totalClusters @ '' MAPT clusters ('' @
                              itoa (length kindsList) @ '' kinds, '' @
                              itoa (length openshiftsList) @ '' openshifts) for user '' @
                              User event) #
                         postListMessage w (Channel event) (fst st2)))))"

section \<open>The command registry and the dispatcher\<close>

text \<open>
  A command holds a Go function value. The three functions the registry ever holds are
  named by a reference, and \<open>callHandler\<close> calls the function a reference names.
\<close>

datatype handler_ref = Ref_HandleLaunch | Ref_HandleList | Ref_handleHelp

record Command =
  Description :: string
  Usage :: string
  Handler :: handler_ref

type_synonym registry = "(string \<times> Command) list"

text \<open>The composite literal of \<open>commandRegistry\<close>, before \<open>init\<close> runs.\<close>

definition commandRegistry_literal :: registry where
  "commandRegistry_literal =
     [(''launch'',
       \<lparr>Description = ''Launch a cluster with specified type and size.'',
        Usage = ''`launch <cluster_type> <size>`'' @ nl @ ''Example: `launch kubernetes large`'',
        Handler = Ref_HandleLaunch\<rparr>),
      (''list'',
       \<lparr>Description = ''List all mapt clusters.'',
        Usage = ''`list`'',
        Handler = Ref_HandleList\<rparr>)]"

text \<open>\<open>init\<close> stores the help command under the key \<open>help\<close>.\<close>

definition init :: "registry \<Rightarrow> registry" where
  "init reg =
     AList.update ''help''
       \<lparr>Description = ''Show available commands and usage.'',
        Usage = ''`help`'',
        Handler = Ref_handleHelp\<rparr> reg"

definition helpLine :: "string \<times> Command \<Rightarrow> string" where
  "helpLine e =
     nl @ bullet @ '' *'' @ fst e @ ''* '' @ emdash @ '' '' @ Description (snd e) @ nl @
     ''  _Usage:_ '' @ Usage (snd e) @ nl"

definition handleHelp :: "env \<Rightarrow> registry \<Rightarrow> MessageEvent \<Rightarrow> string list \<Rightarrow> effect list" where
  "handleHelp w reg event args =
     [PostMessage (Channel event)
        (open_book @ '' *Available commands:*'' @ nl @
         concat (map helpLine (range_map reg (rangeCommands w))))]"

text \<open>
  The source tree defines \<open>commands.HandleLaunch\<close> twice, so the dispatcher takes the
  definition the registry is linked with as \<open>launch\<close>.
\<close>

type_synonym launch_handler = "env \<Rightarrow> MessageEvent \<Rightarrow> string list \<Rightarrow> effect list"

fun callHandler ::
  "launch_handler \<Rightarrow> handler_ref \<Rightarrow> env \<Rightarrow> registry \<Rightarrow> MessageEvent \<Rightarrow> string list \<Rightarrow> effect list"
where
  "callHandler launch Ref_HandleLaunch w reg event args = launch w event args"
| "callHandler launch Ref_HandleList w reg event args = HandleList w event args"
| "callHandler launch Ref_handleHelp w reg event args = handleHelp w reg event args"

definition HandleMessageEvent ::
  "(rune \<Rightarrow> rune) \<Rightarrow> launch_handler \<Rightarrow> env \<Rightarrow> registry \<Rightarrow> MessageEvent \<Rightarrow> effect list"
where
  "HandleMessageEvent lowerCase launch w reg event =
     (if BotID event \<noteq> [] then []
      else
        case Fields (TrimSpace (Text event)) of
          [] \<Rightarrow> []
        | field0 # args \<Rightarrow>
            (let cmd = ToLower lowerCase field0 in
             case map_of reg cmd of
               None \<Rightarrow>
                 Log (''Unknown command '' @ squote @ cmd @ squote @ '' from user '' @ User event @
                      '' in channel '' @ Channel event @ ''. Showing help.'') #
                 handleHelp w reg event []
             | Some command \<Rightarrow>
                 Log (''Received '' @ squote @ cmd @ squote @ '' command from user '' @ User event @
                      '' in channel '' @ Channel event) #
                 callHandler launch (Handler command) w reg event args))"

section \<open>Start-up and the event loop\<close>

text \<open>
  The process: the package-level variable \<open>commandRegistry\<close> and everything the
  handlers have done so far.
\<close>

record process =
  commandRegistry :: registry
  trace :: "effect list"

text \<open>
  Start-up from a registry literal: the variable is initialised, \<open>init\<close> runs, then
  \<open>main\<close> reads the two tokens and stops with \<open>log.Fatal\<close> when one is empty.
\<close>

definition startup_from :: "registry \<Rightarrow> string \<Rightarrow> string \<Rightarrow> error + process" where
  "startup_from literal botToken appToken =
     (let reg = init literal in
      if botToken = [] then Inl ''FATAL: SLACK_BOT_TOKEN environment variable is not set.''
      else if appToken = [] then Inl ''FATAL: SLACK_APP_TOKEN environment variable is not set.''
      else Inr \<lparr>commandRegistry = reg, trace = []\<rparr>)"

definition startup :: "string \<Rightarrow> string \<Rightarrow> error + process" where
  "startup botToken appToken = startup_from commandRegistry_literal botToken appToken"

fun is_Panic :: "effect \<Rightarrow> bool" where
  "is_Panic (Panic _) = True"
| "is_Panic _ = False"

text \<open>
  The loop of \<open>Run\<close> hands the message events to the dispatcher one after the other;
  each comes with the answers of the outside world during its handling. A panic ends
  the process.
\<close>

fun Run ::
  "(rune \<Rightarrow> rune) \<Rightarrow> launch_handler \<Rightarrow> process \<Rightarrow> (env \<times> MessageEvent) list \<Rightarrow> process"
where
  "Run lowerCase launch p [] = p"
| "Run lowerCase launch p ((w, event) # rest) =
     (let out = HandleMessageEvent lowerCase launch w (commandRegistry p) event;
          p' = p\<lparr>trace := trace p @ out\<rparr>
      in if list_ex is_Panic out then p' else Run lowerCase launch p' rest)"

section \<open>Example inputs\<close>

definition quiet_world :: env where
  "quiet_world =
     \<lparr>getClientErr = None, listKinds = Inr [], listOpenshifts = Inr [], listNilErr = None,
      postErr = None, rangeSizes = [''medium'', ''large'', ''xlarge''],
      rangeCommands = [''launch'', ''list'', ''help'']\<rparr>"

text \<open>
  A few entries of the case tables, for the examples: the Kelvin sign U+212A, capital E
  with acute U+00C9 and capital I with dot above U+0130.
\<close>

definition example_LowerCase :: "rune \<Rightarrow> rune" where
  "example_LowerCase r =
     (if r = 0x212A then 0x6B else if r = 0xC9 then 0xE9 else if r = 0x130 then 0x69 else r)"

definition kelvin_sign :: string where
  "kelvin_sign = [CHR 0xE2, CHR 0x84, CHR 0xAA]"

definition no_break_space :: string where
  "no_break_space = [CHR 0xC2, CHR 0xA0]"

definition ideographic_space :: string where
  "ideographic_space = [CHR 0xE3, CHR 0x80, CHR 0x80]"

definition no_client :: env where
  "no_client = quiet_world\<lparr>getClientErr := Some ''no kubeconfig''\<rparr>"

definition message_from :: "string \<Rightarrow> string \<Rightarrow> MessageEvent" where
  "message_from botID txt = \<lparr>BotID = botID, Text = txt, User = ''U1'', Channel = ''C1''\<rparr>"

definition a_cluster :: Cluster where
  "a_cluster =
     \<lparr>Name = ''dev'', Namespace = ''team-a'',
      CreationTimestamp = \<lparr>year = 2025, month = 3, day = 9, hour = 7, minute = 5, second = 0\<rparr>\<rparr>"

definition other_order :: env where
  "other_order = quiet_world\<lparr>rangeSizes := [''xlarge'', ''medium'', ''large'']\<rparr>"

definition shouting_literal :: registry where
  "shouting_literal =
     [(''Launch'',
       \<lparr>Description = ''Launch a cluster with specified type and size.'',
        Usage = ''`launch <cluster_type> <size>`'',
        Handler = Ref_HandleLaunch\<rparr>)]"

definition running :: process where
  "running = \<lparr>commandRegistry = init commandRegistry_literal, trace = []\<rparr>"

definition b_cluster :: Cluster where
  "b_cluster =
     \<lparr>Name = ''ocp'', Namespace = ''team-b'',
      CreationTimestamp = \<lparr>year = 2024, month = 12, day = 31, hour = 23, minute = 59, second = 58\<rparr>\<rparr>"

definition two_clusters :: env where
  "two_clusters = quiet_world\<lparr>listKinds := Inr [a_cluster], listOpenshifts := Inr [b_cluster]\<rparr>"

section \<open>The listing as the specification words it\<close>

text \<open>
  The specification describes the reply of the list handler in words: the Kubernetes
  items first, then the OpenShift items, each kind in the order returned, and a single
  blank line between consecutive entries and none after the last. \<open>spec_entries\<close>
  and \<open>spec_join\<close> say that; an entry ends with a line feed, so one more line feed
  makes the blank line. They are compared below with what the loops of \<open>HandleList\<close>
  write.
\<close>

definition spec_entries :: "Cluster list \<Rightarrow> Cluster list \<Rightarrow> string list" where
  "spec_entries kinds openshifts =
     map (clusterEntry ''Kubernetes'') kinds @ map (clusterEntry ''OpenShift'') openshifts"

fun spec_join :: "string list \<Rightarrow> string" where
  "spec_join [] = []"
| "spec_join [e] = e"
| "spec_join (e # e' # es) = e @ nl @ spec_join (e' # es)"

text \<open>
  What the loops write from \<open>clusterIndex = i\<close> on, for \<open>n\<close> clusters in all, given the
  entries still to come.
\<close>

fun entries_from :: "nat \<Rightarrow> nat \<Rightarrow> string list \<Rightarrow> string" where
  "entries_from n i [] = []"
| "entries_from n i (e # es) =
     e @ (if int i < int n - 1 then nl else []) @ entries_from n (Suc i) es"

text \<open>
  The shape of a text: \<open>d\<close> in the pattern stands for a decimal digit, any other
  character for itself. A valid time has a year from 0 to 9999, the years a timestamp of
  the control plane can have, and a month, day, hour, minute and second of the calendar.
\<close>

definition isDigit :: "char \<Rightarrow> bool" where
  "isDigit c \<longleftrightarrow> 48 \<le> (of_char c :: nat) \<and> (of_char c :: nat) \<le> 57"

definition has_shape :: "string \<Rightarrow> string \<Rightarrow> bool" where
  "has_shape pattern s \<longleftrightarrow> list_all2 (\<lambda>p c. if p = CHR ''d'' then isDigit c else c = p) pattern s"

definition valid_time :: "Time \<Rightarrow> bool" where
  "valid_time t \<longleftrightarrow>
     0 \<le> year t \<and> year t \<le> 9999 \<and> 1 \<le> month t \<and> month t \<le> 12 \<and> 1 \<le> day t \<and> day t \<le> 31 \<and>
     hour t < 24 \<and> minute t < 60 \<and> second t < 60"

section \<open>The string functions on examples\<close>

lemma ToLower_examples:
  "ToLower lowerCase ''K8S'' = ''k8s''"
  "ToLower example_LowerCase (kelvin_sign @ ''8s'') = ''k8s''"
  "ToLower example_LowerCase ([CHR 0xC3, CHR 0x89] @ ''COLE'') = [CHR 0xC3, CHR 0xA9] @ ''cole''"
  "ToLower example_LowerCase (''MED'' @ [CHR 0xC4, CHR 0xB0] @ ''UM'') = ''medium''"
  by code_simp+

lemma Fields_examples:
  "Fields (TrimSpace (''  launch  K8s'' @ [CHR 0x09] @ ''Large '')) = [''launch'', ''K8s'', ''Large'']"
  "Fields (TrimSpace (''list'' @ no_break_space @ ''now'')) = [''list'', ''now'']"
  "Fields (TrimSpace (ideographic_space @ no_break_space)) = []"
  "Fields (TrimSpace [CHR 0x85]) = [[CHR 0x85]]"
  by code_simp+

section \<open>Messages the dispatcher drops\<close>

lemma TrimSpace_blank:
  assumes "list_all (\<lambda>(r, bs). IsSpace r) (runes s)"
  shows "TrimSpace s = []"
proof -
  have blank: "dropWhile (\<lambda>(r, bs). IsSpace r) (runes s) = []"
    using assms by (simp add: list_all_iff dropWhile_eq_Nil_conv)
  show ?thesis unfolding TrimSpace_def blank by simp
qed

lemma Fields_TrimSpace_blank:
  "list_all (\<lambda>(r, bs). IsSpace r) (runes s) \<Longrightarrow> Fields (TrimSpace s) = []"
  by (simp add: TrimSpace_blank Fields_def)

text \<open>
  Claim C8. A message from a bot, or one whose trimmed text has no field (an empty text,
  or a text of white-space runes only), makes the dispatcher do nothing at all: no
  handler runs, nothing is posted, nothing is logged.
\<close>

theorem dispatch_silent:
  "BotID event \<noteq> [] \<or> Fields (TrimSpace (Text event)) = [] \<or>
   list_all (\<lambda>(r, bs). IsSpace r) (runes (Text event))
   \<Longrightarrow> HandleMessageEvent lowerCase launch w reg event = []"
  by (auto simp add: HandleMessageEvent_def Fields_TrimSpace_blank)

theorem dispatch_silent_witness:
  "HandleMessageEvent example_LowerCase (HandleLaunch example_LowerCase) quiet_world
     (init commandRegistry_literal) (message_from ''B1'' ''launch k8s large'') = [] \<and>
   HandleMessageEvent example_LowerCase (HandleLaunch example_LowerCase) quiet_world
     (init commandRegistry_literal) (message_from [] []) = [] \<and>
   HandleMessageEvent example_LowerCase (HandleLaunch example_LowerCase) quiet_world
     (init commandRegistry_literal) (message_from [] no_break_space) = [] \<and>
   HandleMessageEvent example_LowerCase (HandleLaunch example_LowerCase) quiet_world
     (init commandRegistry_literal)
     (message_from [] (''   '' @ no_break_space @ [CHR 0x09] @ ideographic_space)) = []"
proof -
  have bot: "BotID (message_from ''B1'' ''launch k8s large'') \<noteq> []"
    by (simp add: message_from_def)
  have empty: "Fields (TrimSpace (Text (message_from [] []))) = []"
    by code_simp
  have nbsp: "list_all (\<lambda>(r, bs). IsSpace r) (runes (Text (message_from [] no_break_space)))"
    by code_simp
  have mixed: "list_all (\<lambda>(r, bs). IsSpace r)
      (runes (Text (message_from [] (''   '' @ no_break_space @ [CHR 0x09] @ ideographic_space))))"
    by code_simp
  show ?thesis
    using dispatch_silent [where event = "message_from ''B1'' ''launch k8s large''", OF disjI1, OF bot]
      dispatch_silent [where event = "message_from [] []", OF disjI2, OF disjI1, OF empty]
      dispatch_silent [where event = "message_from [] no_break_space", OF disjI2, OF disjI2, OF nbsp]
      dispatch_silent [where event = "message_from [] (''   '' @ no_break_space @ [CHR 0x09] @ ideographic_space)",
        OF disjI2, OF disjI2, OF mixed]
    by blast
qed

section \<open>Failures of the list handler\<close>

text \<open>
  Claim C5. When \<open>GetKubernetesClient\<close> fails, or the first list query fails, or the
  first succeeds and the second fails, \<open>HandleList\<close> posts one message, a fixed error
  text, and no listing.
\<close>

theorem HandleList_failure:
  "(getClientErr w \<noteq> None \<longrightarrow>
      posts (HandleList w event args) =
        [(Channel event, cross_mark @ '' Failed to connect to Kubernetes cluster'')]) \<and>
   (getClientErr w = None \<and> (isl (listKinds w) \<or> isl (listOpenshifts w)) \<longrightarrow>
      posts (HandleList w event args) =
        [(Channel event, cross_mark @ '' Failed to retrieve cluster list'')])"
  by (auto simp add: HandleList_def respondError_def split: option.splits sum.splits)

theorem HandleList_failure_witness:
  "posts (HandleList (quiet_world\<lparr>getClientErr := Some ''no config''\<rparr>) (message_from [] ''list'') []) =
     [(''C1'', cross_mark @ '' Failed to connect to Kubernetes cluster'')] \<and>
   posts (HandleList (quiet_world\<lparr>listKinds := Inl ''timeout''\<rparr>) (message_from [] ''list'') []) =
     [(''C1'', cross_mark @ '' Failed to retrieve cluster list'')] \<and>
   posts (HandleList (quiet_world\<lparr>listKinds := Inr [a_cluster], listOpenshifts := Inl ''timeout''\<rparr>)
            (message_from [] ''list'') []) =
     [(''C1'', cross_mark @ '' Failed to retrieve cluster list'')]"
  using HandleList_failure [of "quiet_world\<lparr>getClientErr := Some ''no config''\<rparr>" "message_from [] ''list''" "[]"]
    HandleList_failure [of "quiet_world\<lparr>listKinds := Inl ''timeout''\<rparr>" "message_from [] ''list''" "[]"]
    HandleList_failure [of "quiet_world\<lparr>listKinds := Inr [a_cluster], listOpenshifts := Inl ''timeout''\<rparr>"
      "message_from [] ''list''" "[]"]
  by (simp add: quiet_world_def message_from_def)

section \<open>Enumerating a Go map\<close>

lemma range_map_mset:
  assumes "distinct (map fst m)" and "is_range_order m ks"
  shows "mset (range_map m ks) = mset m"
proof -
  have in_dom: "\<And>k. k \<in> set ks \<Longrightarrow> k \<in> fst ` set m"
    using assms(2) unfolding is_range_order_def by (metis set_map set_mset_mset)
  have "range_map m ks = map (\<lambda>k. (k, the (map_of m k))) ks"
    unfolding range_map_def using in_dom
  proof (induction ks)
    case Nil
    then show ?case by simp
  next
    case (Cons k ks)
    then obtain v where "map_of m k = Some v"
      by (metis list.set_intros(1) map_of_eq_None_iff not_Some_eq)
    with Cons show ?case by simp
  qed
  then have "mset (range_map m ks) = image_mset (\<lambda>k. (k, the (map_of m k))) (mset ks)"
    by simp
  also have "\<dots> = image_mset (\<lambda>k. (k, the (map_of m k))) (mset (map fst m))"
    using assms(2) by (simp add: is_range_order_def)
  also have "\<dots> = mset (map (\<lambda>e. (fst e, the (map_of m (fst e)))) m)"
    by (simp add: image_mset.compositionality comp_def)
  also have "map (\<lambda>e. (fst e, the (map_of m (fst e)))) m = m"
    using assms(1) by (intro map_idI) (auto simp add: map_of_eq_Some_iff[THEN iffD2])
  finally show ?thesis .
qed

lemma sublist_concat_member: "x \<in> set xs \<Longrightarrow> sublist x (concat xs)"
proof (induction xs)
  case Nil
  then show ?case by simp
next
  case (Cons y ys)
  show ?case
  proof (cases "x = y")
    case True
    then show ?thesis by (simp add: sublist_appendI)
  next
    case False
    with Cons have "sublist x (concat ys)" by simp
    then show ?thesis by (metis concat.simps(2) sublist_append_leftI sublist_order.order.trans sublist_append_rightI suffix_imp_sublist suffix_append)
  qed
qed

lemma sizes_listed:
  assumes "is_range_order supportedSizes (rangeSizes w)" and "e \<in> set supportedSizes"
  shows "sublist (sizeLine e) (formatSupportedSizes w)"
proof -
  have "distinct (map fst supportedSizes)" by (simp add: supportedSizes_def)
  then have "mset (range_map supportedSizes (rangeSizes w)) = mset supportedSizes"
    using assms(1) by (rule range_map_mset)
  then have "e \<in> set (range_map supportedSizes (rangeSizes w))"
    using assms(2) by (metis set_mset_mset)
  then show ?thesis
    unfolding formatSupportedSizes_def by (intro sublist_concat_member) simp
qed

section \<open>Validation and confirmation in the launch handler\<close>

lemmas launch_defs = HandleLaunch_def launchChecks_def respondError_def isSupportedClusterType_def
  supportedClusterTypes_def

lemma map_of_supportedSizes_None:
  "map_of supportedSizes s = None \<longleftrightarrow> s \<notin> {''medium'', ''large'', ''xlarge''}"
  by (simp add: supportedSizes_def)

text \<open>
  \<open>HandleLaunch\<close> of \<open>launch.go\<close> checks in a fixed order and answers with the first
  check that fails: with fewer than two arguments the reply is the missing-arguments text
  with the usage block; otherwise, with a first argument that is not a cluster type in
  lower case, the reply names that value, whatever the second argument is; otherwise,
  with a second argument that is not a size of the catalog in lower case, the reply names
  that value and lists the sizes, every size of the catalog with its CPU and RAM labels.
\<close>

lemma HandleLaunch_checks_in_order:
  "(length args < 2 \<longrightarrow>
      posts (HandleLaunch lowerCase w event args) =
        [(Channel event, cross_mark @ '' Missing arguments.'' @ nl @ nl @ launchUsage)]) \<and>
   (2 \<le> length args \<and> ToLower lowerCase (args ! 0) \<notin> {''k8s'', ''openshift''} \<longrightarrow>
      posts (HandleLaunch lowerCase w event args) =
        [(Channel event,
          cross_mark @ '' Unsupported cluster type: *'' @ ToLower lowerCase (args ! 0) @ ''*'' @ nl @
          ''Supported types: `k8s`, `openshift`'')]) \<and>
   (2 \<le> length args \<and> ToLower lowerCase (args ! 0) \<in> {''k8s'', ''openshift''} \<and>
    ToLower lowerCase (args ! 1) \<notin> {''medium'', ''large'', ''xlarge''} \<longrightarrow>
      posts (HandleLaunch lowerCase w event args) =
        [(Channel event,
          cross_mark @ '' Invalid size: *'' @ ToLower lowerCase (args ! 1) @ ''*'' @ nl @
          ''Valid sizes:'' @ nl @ formatSupportedSizes w)] \<and>
      (is_range_order supportedSizes (rangeSizes w) \<longrightarrow>
         (\<forall>e \<in> set supportedSizes. sublist (sizeLine e) (formatSupportedSizes w))))"
proof (intro conjI impI)
  assume "length args < 2"
  then show "posts (HandleLaunch lowerCase w event args) =
        [(Channel event, cross_mark @ '' Missing arguments.'' @ nl @ nl @ launchUsage)]"
    by (simp add: launch_defs split: option.splits)
next
  assume "2 \<le> length args \<and> ToLower lowerCase (args ! 0) \<notin> {''k8s'', ''openshift''}"
  then show "posts (HandleLaunch lowerCase w event args) =
        [(Channel event,
          cross_mark @ '' Unsupported cluster type: *'' @ ToLower lowerCase (args ! 0) @ ''*'' @ nl @
          ''Supported types: `k8s`, `openshift`'')]"
    by (simp add: launch_defs Let_def split: option.splits)
next
  assume h: "2 \<le> length args \<and> ToLower lowerCase (args ! 0) \<in> {''k8s'', ''openshift''} \<and>
    ToLower lowerCase (args ! 1) \<notin> {''medium'', ''large'', ''xlarge''}"
  then have "map_of supportedSizes (ToLower lowerCase (args ! 1)) = None"
    by (simp only: map_of_supportedSizes_None not_False_eq_True)
  with h show "posts (HandleLaunch lowerCase w event args) =
        [(Channel event,
          cross_mark @ '' Invalid size: *'' @ ToLower lowerCase (args ! 1) @ ''*'' @ nl @
          ''Valid sizes:'' @ nl @ formatSupportedSizes w)]"
    by (simp add: launch_defs Let_def split: option.splits)
next
  assume "2 \<le> length args \<and> ToLower lowerCase (args ! 0) \<in> {''k8s'', ''openshift''} \<and>
    ToLower lowerCase (args ! 1) \<notin> {''medium'', ''large'', ''xlarge''}"
    and "is_range_order supportedSizes (rangeSizes w)"
  then show "\<forall>e \<in> set supportedSizes. sublist (sizeLine e) (formatSupportedSizes w)"
    by (blast intro: sizes_listed)
qed

text \<open>
  When \<open>GetKubernetesClient\<close> returns a client, the definition of the launch handler in
  \<open>unnamed/part_002\<close> posts what the definition in \<open>launch.go\<close> posts.
\<close>

lemma HandleLaunch_part_002_with_client:
  "getClientErr w = None \<Longrightarrow>
   posts (HandleLaunch_part_002 lowerCase w event args) = posts (HandleLaunch lowerCase w event args)"
  by (simp add: HandleLaunch_part_002_def HandleLaunch_def)

text \<open>
  Claim C2. Every list of arguments is to get the reply of the first check that fails.
  \<open>HandleLaunch\<close> of \<open>launch.go\<close> gives it (\<open>HandleLaunch_checks_in_order\<close>).
  \<open>HandleLaunch\<close> of \<open>unnamed/part_002\<close> does not when \<open>GetKubernetesClient\<close>
  returns an error: after the check of the number of arguments it panics on the nil
  client, so on \<open>launch BadType huge\<close> no check of the cluster type runs and nothing is
  posted, where the definition of \<open>launch.go\<close> posts the error that names \<open>badtype\<close>.
\<close>

theorem HandleLaunch_part_002_skips_validation:
  "HandleLaunch_part_002 example_LowerCase no_client (message_from [] ''launch BadType huge'')
     [''BadType'', ''huge''] =
     [Log ''Error getting kubernetes clinet: no kubeconfig'',
      Panic ''invalid memory address or nil pointer dereference''] \<and>
   posts (HandleLaunch_part_002 example_LowerCase no_client
            (message_from [] ''launch BadType huge'') [''BadType'', ''huge'']) = [] \<and>
   posts (HandleLaunch example_LowerCase no_client
            (message_from [] ''launch BadType huge'') [''BadType'', ''huge'']) =
     [(''C1'', cross_mark @ '' Unsupported cluster type: *badtype*'' @ nl @
        ''Supported types: `k8s`, `openshift`'')] \<and>
   posts (HandleLaunch_part_002 example_LowerCase no_client
            (message_from [] ''launch k8s'') [''k8s'']) =
     [(''C1'', cross_mark @ '' Missing arguments.'' @ nl @ nl @ launchUsage)]"
proof -
  have l1: "ToLower example_LowerCase ''BadType'' = ''badtype''"
    by code_simp
  show ?thesis
    by (simp add: HandleLaunch_part_002_def launch_defs fmt_err_def no_client_def quiet_world_def
        message_from_def l1)
qed

text \<open>
  Claim C3. With two arguments that are, in lower case, a cluster type and a size of the
  catalog, \<open>HandleLaunch\<close> posts one message, the confirmation, with the type and the
  size in lower case, the mention of the sender and the CPU and RAM labels of the size
  (\<open>16 CPUs\<close> and \<open>64 GB RAM\<close> for \<open>large\<close>); arguments after the second change
  nothing.
\<close>

theorem HandleLaunch_confirmation:
  assumes "2 \<le> length args"
    and "ToLower lowerCase (args ! 0) \<in> {''k8s'', ''openshift''}"
    and "map_of supportedSizes (ToLower lowerCase (args ! 1)) = Some spec"
  shows "posts (HandleLaunch lowerCase w event args) =
           [(Channel event,
             rocket @ '' Launching a *'' @ ToLower lowerCase (args ! 0) @ ''* cluster of size *'' @
             ToLower lowerCase (args ! 1) @ ''* for <@'' @ User event @ ''>'' @ nl @
             bullet @ '' CPU: '' @ CPU spec @ nl @
             bullet @ '' Memory: '' @ RAM spec)] \<and>
         (ToLower lowerCase (args ! 1) = ''large'' \<longrightarrow>
            CPU spec = ''16 CPUs'' \<and> RAM spec = ''64 GB RAM'') \<and>
         HandleLaunch lowerCase w event args = HandleLaunch lowerCase w event (take 2 args)"
proof -
  have reply: "posts (HandleLaunch lowerCase w event args) =
           [(Channel event,
             rocket @ '' Launching a *'' @ ToLower lowerCase (args ! 0) @ ''* cluster of size *'' @
             ToLower lowerCase (args ! 1) @ ''* for <@'' @ User event @ ''>'' @ nl @
             bullet @ '' CPU: '' @ CPU spec @ nl @
             bullet @ '' Memory: '' @ RAM spec)]"
    using assms by (auto simp add: launch_defs Let_def split: option.splits)
  have large: "ToLower lowerCase (args ! 1) = ''large'' \<longrightarrow>
      CPU spec = ''16 CPUs'' \<and> RAM spec = ''64 GB RAM''"
    using assms(3) by (auto simp add: supportedSizes_def)
  have "length (take 2 args) = 2" "take 2 args ! 0 = args ! 0" "take 2 args ! 1 = args ! 1"
    using assms(1) by simp_all
  then have extra: "HandleLaunch lowerCase w event args = HandleLaunch lowerCase w event (take 2 args)"
    using assms(1) by (simp add: HandleLaunch_def launchChecks_def)
  from reply large extra show ?thesis by blast
qed

theorem HandleLaunch_confirmation_witness:
  "posts (HandleLaunch example_LowerCase quiet_world (message_from [] ''launch K8S Large now'')
            [''K8S'', ''Large'', ''now'']) =
     [(''C1'', rocket @ '' Launching a *k8s* cluster of size *large* for <@U1>'' @ nl @
        bullet @ '' CPU: 16 CPUs'' @ nl @ bullet @ '' Memory: 64 GB RAM'')] \<and>
   HandleLaunch example_LowerCase quiet_world (message_from [] ''launch K8S Large now'')
     [''K8S'', ''Large'', ''now''] =
   HandleLaunch example_LowerCase quiet_world (message_from [] ''launch K8S Large now'')
     [''K8S'', ''Large''] \<and>
   posts (HandleLaunch example_LowerCase quiet_world (message_from [] ''launch'')
            [kelvin_sign @ ''8S'', ''Large'']) =
     [(''C1'', rocket @ '' Launching a *k8s* cluster of size *large* for <@U1>'' @ nl @
        bullet @ '' CPU: 16 CPUs'' @ nl @ bullet @ '' Memory: 64 GB RAM'')]"
proof -
  have l1: "ToLower example_LowerCase ''K8S'' = ''k8s''" "ToLower example_LowerCase ''Large'' = ''large''"
    "ToLower example_LowerCase (kelvin_sign @ ''8S'') = ''k8s''"
    by code_simp+
  have sz: "map_of supportedSizes ''large'' = Some \<lparr>CPU = ''16 CPUs'', RAM = ''64 GB RAM''\<rparr>"
    by (simp add: supportedSizes_def)
  have "2 \<le> length [''K8S'', ''Large'', ''now'']"
    and "ToLower example_LowerCase ([''K8S'', ''Large'', ''now''] ! 0) \<in> {''k8s'', ''openshift''}"
    and "map_of supportedSizes (ToLower example_LowerCase ([''K8S'', ''Large'', ''now''] ! 1)) =
           Some \<lparr>CPU = ''16 CPUs'', RAM = ''64 GB RAM''\<rparr>"
    by (simp_all add: l1 sz)
  note inst = HandleLaunch_confirmation [OF this,
      where w = quiet_world and event = "message_from [] ''launch K8S Large now''"]
  have reply: "posts (HandleLaunch example_LowerCase quiet_world (message_from [] ''launch K8S Large now'')
            [''K8S'', ''Large'', ''now'']) =
     [(''C1'', rocket @ '' Launching a *k8s* cluster of size *large* for <@U1>'' @ nl @
        bullet @ '' CPU: 16 CPUs'' @ nl @ bullet @ '' Memory: 64 GB RAM'')]"
    using inst [THEN conjunct1] by (simp add: l1 message_from_def)
  have extra: "HandleLaunch example_LowerCase quiet_world (message_from [] ''launch K8S Large now'')
     [''K8S'', ''Large'', ''now''] =
     HandleLaunch example_LowerCase quiet_world (message_from [] ''launch K8S Large now'')
     [''K8S'', ''Large'']"
    using inst [THEN conjunct2, THEN conjunct2] by simp
  have "2 \<le> length [kelvin_sign @ ''8S'', ''Large'']"
    and "ToLower example_LowerCase ([kelvin_sign @ ''8S'', ''Large''] ! 0) \<in> {''k8s'', ''openshift''}"
    and "map_of supportedSizes (ToLower example_LowerCase ([kelvin_sign @ ''8S'', ''Large''] ! 1)) =
           Some \<lparr>CPU = ''16 CPUs'', RAM = ''64 GB RAM''\<rparr>"
    by (simp_all add: l1 sz)
  note kelvin = HandleLaunch_confirmation [OF this,
      where w = quiet_world and event = "message_from [] ''launch''"]
  have reply_kelvin: "posts (HandleLaunch example_LowerCase quiet_world (message_from [] ''launch'')
            [kelvin_sign @ ''8S'', ''Large'']) =
     [(''C1'', rocket @ '' Launching a *k8s* cluster of size *large* for <@U1>'' @ nl @
        bullet @ '' CPU: 16 CPUs'' @ nl @ bullet @ '' Memory: 64 GB RAM'')]"
    using kelvin [THEN conjunct1] by (simp add: l1 message_from_def)
  from reply extra reply_kelvin show ?thesis by blast
qed

section \<open>The order of the sizes in the size error\<close>

text \<open>
  Claim C7, as stated, fails: \<open>formatSupportedSizes\<close> ranges over a Go map, so two
  invocations on the same input may meet the sizes in different orders and then post
  different texts.
\<close>

theorem size_error_order_counterexample:
  "is_range_order supportedSizes (rangeSizes quiet_world) \<and>
   is_range_order supportedSizes (rangeSizes other_order) \<and>
   posts (HandleLaunch example_LowerCase quiet_world (message_from [] ''launch k8s huge'') [''k8s'', ''huge'']) \<noteq>
   posts (HandleLaunch example_LowerCase other_order (message_from [] ''launch k8s huge'') [''k8s'', ''huge''])"
proof -
  have l1: "ToLower example_LowerCase ''k8s'' = ''k8s''" "ToLower example_LowerCase ''huge'' = ''huge''"
    by code_simp+
  show ?thesis
    by (simp add: is_range_order_def supportedSizes_def quiet_world_def other_order_def launch_defs
        l1 formatSupportedSizes_def range_map_def sizeLine_def bullet_def nl_def)
qed

text \<open>
  Claim C7, amended. On an input with a valid cluster type and an unknown size, any two
  invocations post the same leading text, naming the size in lower case, followed by the
  lines of the sizes; these are, in both, the three lines of the catalog, each once, in
  the order of the enumeration.
\<close>

theorem size_error_same_lines:
  assumes "is_range_order supportedSizes (rangeSizes w1)"
    and "is_range_order supportedSizes (rangeSizes w2)"
    and "2 \<le> length args"
    and "ToLower lowerCase (args ! 0) \<in> {''k8s'', ''openshift''}"
    and "ToLower lowerCase (args ! 1) \<notin> {''medium'', ''large'', ''xlarge''}"
  shows "posts (HandleLaunch lowerCase w1 event args) =
           [(Channel event,
             cross_mark @ '' Invalid size: *'' @ ToLower lowerCase (args ! 1) @ ''*'' @ nl @ ''Valid sizes:'' @ nl @
             concat (map sizeLine (range_map supportedSizes (rangeSizes w1))))] \<and>
         posts (HandleLaunch lowerCase w2 event args) =
           [(Channel event,
             cross_mark @ '' Invalid size: *'' @ ToLower lowerCase (args ! 1) @ ''*'' @ nl @ ''Valid sizes:'' @ nl @
             concat (map sizeLine (range_map supportedSizes (rangeSizes w2))))] \<and>
         mset (map sizeLine (range_map supportedSizes (rangeSizes w1))) =
           mset (map sizeLine supportedSizes) \<and>
         mset (map sizeLine (range_map supportedSizes (rangeSizes w2))) =
           mset (map sizeLine supportedSizes)"
proof -
  have none: "map_of supportedSizes (ToLower lowerCase (args ! 1)) = None"
    using assms(5) by (simp only: map_of_supportedSizes_None not_False_eq_True)
  have reply: "posts (HandleLaunch lowerCase w event args) =
           [(Channel event,
             cross_mark @ '' Invalid size: *'' @ ToLower lowerCase (args ! 1) @ ''*'' @ nl @ ''Valid sizes:'' @ nl @
             concat (map sizeLine (range_map supportedSizes (rangeSizes w))))]" for w
    using assms(3,4) none
    by (auto simp add: launch_defs formatSupportedSizes_def Let_def split: option.splits)
  have dist: "distinct (map fst supportedSizes)" by (simp add: supportedSizes_def)
  have lines: "mset (map sizeLine (range_map supportedSizes (rangeSizes w))) =
           mset (map sizeLine supportedSizes)" if "is_range_order supportedSizes (rangeSizes w)" for w
    using range_map_mset [OF dist that] by (metis mset_map)
  from reply [of w1] reply [of w2] lines [OF assms(1)] lines [OF assms(2)] show ?thesis by blast
qed

theorem size_error_same_lines_witness:
  "mset (map sizeLine (range_map supportedSizes (rangeSizes quiet_world))) =
   mset (map sizeLine (range_map supportedSizes (rangeSizes other_order))) \<and>
   posts (HandleLaunch example_LowerCase other_order (message_from [] ''launch k8s huge'') [''k8s'', ''huge'']) =
     [(''C1'', cross_mark @ '' Invalid size: *huge*'' @ nl @ ''Valid sizes:'' @ nl @
        bullet @ '' `xlarge`: 32 CPUs, 128 GB RAM'' @ nl @
        bullet @ '' `medium`: 8 CPUs, 32 GB RAM'' @ nl @
        bullet @ '' `large`: 16 CPUs, 64 GB RAM'' @ nl)]"
proof -
  have l1: "ToLower example_LowerCase ''k8s'' = ''k8s''" "ToLower example_LowerCase ''huge'' = ''huge''"
    by code_simp+
  have o1: "is_range_order supportedSizes (rangeSizes quiet_world)"
    and o2: "is_range_order supportedSizes (rangeSizes other_order)"
    by (simp_all add: is_range_order_def supportedSizes_def quiet_world_def other_order_def)
  have pre: "2 \<le> length [''k8s'', ''huge'']" "ToLower example_LowerCase ([''k8s'', ''huge''] ! 0) \<in> {''k8s'', ''openshift''}"
    "ToLower example_LowerCase ([''k8s'', ''huge''] ! 1) \<notin> {''medium'', ''large'', ''xlarge''}"
    by (simp_all add: l1)
  note inst = size_error_same_lines [OF o1 o2 pre, where event = "message_from [] ''launch k8s huge''"]
  have same: "mset (map sizeLine (range_map supportedSizes (rangeSizes quiet_world))) =
      mset (map sizeLine (range_map supportedSizes (rangeSizes other_order)))"
    using inst by simp
  have reply: "posts (HandleLaunch example_LowerCase other_order (message_from [] ''launch k8s huge'') [''k8s'', ''huge'']) =
     [(''C1'', cross_mark @ '' Invalid size: *huge*'' @ nl @ ''Valid sizes:'' @ nl @
        bullet @ '' `xlarge`: 32 CPUs, 128 GB RAM'' @ nl @
        bullet @ '' `medium`: 8 CPUs, 32 GB RAM'' @ nl @
        bullet @ '' `large`: 16 CPUs, 64 GB RAM'' @ nl)]"
    using inst [THEN conjunct2, THEN conjunct1]
    by (simp add: l1 message_from_def range_map_def supportedSizes_def other_order_def
        quiet_world_def sizeLine_def)
  from same reply show ?thesis by (rule conjI)
qed

section \<open>The launch handler that calls the control plane\<close>

text \<open>
  Claim C6. The two definitions of the launch handler are to post the same reply. They do
  not when \<open>GetKubernetesClient\<close> returns an error: on \<open>launch k8s large\<close> the
  definition of \<open>unnamed/part_002\<close> logs the error, panics on the nil client and posts
  nothing, and the definition of \<open>launch.go\<close> posts the confirmation.
\<close>

theorem HandleLaunch_part_002_nil_client:
  "HandleLaunch_part_002 example_LowerCase (quiet_world\<lparr>getClientErr := Some ''no kubeconfig''\<rparr>)
     (message_from [] ''launch k8s large'') [''k8s'', ''large''] =
     [Log ''Error getting kubernetes clinet: no kubeconfig'',
      Panic ''invalid memory address or nil pointer dereference''] \<and>
   posts (HandleLaunch_part_002 example_LowerCase (quiet_world\<lparr>getClientErr := Some ''no kubeconfig''\<rparr>)
     (message_from [] ''launch k8s large'') [''k8s'', ''large'']) = [] \<and>
   posts (HandleLaunch example_LowerCase (quiet_world\<lparr>getClientErr := Some ''no kubeconfig''\<rparr>)
     (message_from [] ''launch k8s large'') [''k8s'', ''large'']) =
     [(''C1'', rocket @ '' Launching a *k8s* cluster of size *large* for <@U1>'' @ nl @
        bullet @ '' CPU: 16 CPUs'' @ nl @ bullet @ '' Memory: 64 GB RAM'')]"
proof -
  have l1: "ToLower example_LowerCase ''k8s'' = ''k8s''" "ToLower example_LowerCase ''large'' = ''large''"
    by code_simp+
  show ?thesis
    by (simp add: HandleLaunch_part_002_def launch_defs fmt_err_def quiet_world_def message_from_def
        l1 supportedSizes_def)
qed

section \<open>Routing of commands\<close>

lemma registry_keys: "map fst (init commandRegistry_literal) = [''launch'', ''list'', ''help'']"
  by (simp add: init_def commandRegistry_literal_def)

lemma ToLower_keys:
  "ToLower lowerCase ''launch'' = ''launch''" "ToLower lowerCase ''list'' = ''list''"
  "ToLower lowerCase ''help'' = ''help''"
  by code_simp+

lemma registry_key_cases:
  "map_of (init commandRegistry_literal) K = Some command \<Longrightarrow>
   K = ''launch'' \<or> K = ''list'' \<or> K = ''help''"
  by (simp add: init_def commandRegistry_literal_def split: if_splits)

lemma registry_key_lower:
  assumes "map_of (init commandRegistry_literal) K = Some command"
  shows "ToLower lowerCase K = K"
  using registry_key_cases [OF assms] ToLower_keys by auto

text \<open>
  Claim C1. Take a message that is not from a bot and whose text has a first field. When
  the field is a registered keyword \<open>K\<close> in any letter case, the dispatcher logs the
  command and calls the handler registered for \<open>K\<close> with the remaining fields, as they
  are, as arguments. When the field in lower case is no registered keyword, the
  dispatcher logs the unknown command and calls \<open>handleHelp\<close> with no arguments.
\<close>

theorem dispatch_routes:
  assumes "BotID event = []" and "Fields (TrimSpace (Text event)) = tok # rest"
  shows "(\<forall>K command.
            map_of (init commandRegistry_literal) K = Some command \<and> ToLower lowerCase tok = ToLower lowerCase K \<longrightarrow>
            HandleMessageEvent lowerCase launch w (init commandRegistry_literal) event =
              Log (''Received '' @ squote @ K @ squote @ '' command from user '' @ User event @
                   '' in channel '' @ Channel event) #
              callHandler launch (Handler command) w (init commandRegistry_literal) event rest) \<and>
         (map_of (init commandRegistry_literal) (ToLower lowerCase tok) = None \<longrightarrow>
            HandleMessageEvent lowerCase launch w (init commandRegistry_literal) event =
              Log (''Unknown command '' @ squote @ ToLower lowerCase tok @ squote @ '' from user '' @
                   User event @ '' in channel '' @ Channel event @ ''. Showing help.'') #
              handleHelp w (init commandRegistry_literal) event [])"
proof (intro conjI allI impI)
  fix K command
  assume h: "map_of (init commandRegistry_literal) K = Some command \<and> ToLower lowerCase tok = ToLower lowerCase K"
  then have "ToLower lowerCase tok = K" using registry_key_lower by auto
  with h assms show "HandleMessageEvent lowerCase launch w (init commandRegistry_literal) event =
              Log (''Received '' @ squote @ K @ squote @ '' command from user '' @ User event @
                   '' in channel '' @ Channel event) #
              callHandler launch (Handler command) w (init commandRegistry_literal) event rest"
    by (simp add: HandleMessageEvent_def)
next
  assume "map_of (init commandRegistry_literal) (ToLower lowerCase tok) = None"
  with assms show "HandleMessageEvent lowerCase launch w (init commandRegistry_literal) event =
              Log (''Unknown command '' @ squote @ ToLower lowerCase tok @ squote @ '' from user '' @
                   User event @ '' in channel '' @ Channel event @ ''. Showing help.'') #
              handleHelp w (init commandRegistry_literal) event []"
    by (simp add: HandleMessageEvent_def)
qed

theorem dispatch_routes_witness:
  "HandleMessageEvent example_LowerCase (HandleLaunch example_LowerCase) quiet_world
     (init commandRegistry_literal) (message_from [] '' LAUNCH  K8s Large '') =
     Log (''Received '' @ squote @ ''launch'' @ squote @ '' command from user U1 in channel C1'') #
     HandleLaunch example_LowerCase quiet_world (message_from [] '' LAUNCH  K8s Large '')
       [''K8s'', ''Large''] \<and>
   HandleMessageEvent example_LowerCase (HandleLaunch example_LowerCase) quiet_world
     (init commandRegistry_literal) (message_from [] (''List'' @ no_break_space @ ''now'')) =
     Log (''Received '' @ squote @ ''list'' @ squote @ '' command from user U1 in channel C1'') #
     HandleList quiet_world (message_from [] (''List'' @ no_break_space @ ''now'')) [''now''] \<and>
   HandleMessageEvent example_LowerCase (HandleLaunch example_LowerCase) quiet_world
     (init commandRegistry_literal) (message_from [] ''frobnicate now'') =
     Log (''Unknown command '' @ squote @ ''frobnicate'' @ squote @
          '' from user U1 in channel C1. Showing help.'') #
     handleHelp quiet_world (init commandRegistry_literal) (message_from [] ''frobnicate now'') []"
proof -
  have f1: "Fields (TrimSpace (Text (message_from [] '' LAUNCH  K8s Large ''))) =
      ''LAUNCH'' # [''K8s'', ''Large'']"
    by code_simp
  have f2: "Fields (TrimSpace (Text (message_from [] ''frobnicate now''))) = ''frobnicate'' # [''now'']"
    by code_simp
  have f3: "Fields (TrimSpace (Text (message_from [] (''List'' @ no_break_space @ ''now'')))) =
      ''List'' # [''now'']"
    by code_simp
  have b: "BotID (message_from [] t) = []" for t
    by (simp add: message_from_def)
  have l1: "ToLower example_LowerCase ''LAUNCH'' = ToLower example_LowerCase ''launch''"
    "ToLower example_LowerCase ''List'' = ToLower example_LowerCase ''list''"
    "ToLower example_LowerCase ''frobnicate'' = ''frobnicate''"
    by code_simp+
  have k: "map_of (init commandRegistry_literal) ''launch'' =
      Some \<lparr>Description = ''Launch a cluster with specified type and size.'',
        Usage = ''`launch <cluster_type> <size>`'' @ nl @ ''Example: `launch kubernetes large`'',
        Handler = Ref_HandleLaunch\<rparr>"
    by (simp add: init_def commandRegistry_literal_def)
  have k2: "map_of (init commandRegistry_literal) ''list'' =
      Some \<lparr>Description = ''List all mapt clusters.'', Usage = ''`list`'',
        Handler = Ref_HandleList\<rparr>"
    by (simp add: init_def commandRegistry_literal_def)
  have u: "map_of (init commandRegistry_literal) (ToLower example_LowerCase ''frobnicate'') = None"
    by (simp add: l1 init_def commandRegistry_literal_def)
  have r1: "HandleMessageEvent example_LowerCase (HandleLaunch example_LowerCase) quiet_world
     (init commandRegistry_literal) (message_from [] '' LAUNCH  K8s Large '') =
     Log (''Received '' @ squote @ ''launch'' @ squote @ '' command from user U1 in channel C1'') #
     HandleLaunch example_LowerCase quiet_world (message_from [] '' LAUNCH  K8s Large '')
       [''K8s'', ''Large'']"
    using dispatch_routes [OF b f1, where lowerCase = example_LowerCase
        and launch = "HandleLaunch example_LowerCase" and w = quiet_world,
        THEN conjunct1, rule_format, OF conjI, OF k l1(1)]
    by (simp add: message_from_def)
  have r2: "HandleMessageEvent example_LowerCase (HandleLaunch example_LowerCase) quiet_world
     (init commandRegistry_literal) (message_from [] (''List'' @ no_break_space @ ''now'')) =
     Log (''Received '' @ squote @ ''list'' @ squote @ '' command from user U1 in channel C1'') #
     HandleList quiet_world (message_from [] (''List'' @ no_break_space @ ''now'')) [''now'']"
    using dispatch_routes [OF b f3, where lowerCase = example_LowerCase
        and launch = "HandleLaunch example_LowerCase" and w = quiet_world,
        THEN conjunct1, rule_format, OF conjI, OF k2 l1(2)]
    by (simp add: message_from_def)
  have r3: "HandleMessageEvent example_LowerCase (HandleLaunch example_LowerCase) quiet_world
     (init commandRegistry_literal) (message_from [] ''frobnicate now'') =
     Log (''Unknown command '' @ squote @ ''frobnicate'' @ squote @
          '' from user U1 in channel C1. Showing help.'') #
     handleHelp quiet_world (init commandRegistry_literal) (message_from [] ''frobnicate now'') []"
    using dispatch_routes [OF b f2, where lowerCase = example_LowerCase
        and launch = "HandleLaunch example_LowerCase" and w = quiet_world,
        THEN conjunct2, rule_format, OF u] l1
    by (simp add: message_from_def)
  from r1 r2 r3 show ?thesis by blast
qed

section \<open>The keywords of the registry\<close>

text \<open>
  Claim C9, as stated, fails: nothing at start-up looks at the letter case of the keys.
  Start-up from a registry literal with the key \<open>Launch\<close> succeeds, and the key is in
  the registry of the running process.
\<close>

theorem startup_no_keyword_check_counterexample:
  "ToLower example_LowerCase ''Launch'' \<noteq> ''Launch'' \<and>
   startup_from shouting_literal ''xoxb-1'' ''xapp-1'' =
     Inr \<lparr>commandRegistry = init shouting_literal, trace = []\<rparr> \<and>
   ''Launch'' \<in> set (map fst (init shouting_literal))"
proof -
  have "ToLower example_LowerCase ''Launch'' = ''launch''" by code_simp
  then show ?thesis
    by (simp add: startup_from_def init_def shouting_literal_def)
qed

text \<open>
  Claim C9, amended. Every keyword of the registry after start-up is in lower case, so
  looking up the first field in lower case finds the command of a keyword written in any
  letter case.
\<close>

theorem registry_keys_lowercase:
  assumes "startup botToken appToken = Inr p"
  shows "(\<forall>K \<in> set (map fst (commandRegistry p)). ToLower lowerCase K = K) \<and>
         (\<forall>K \<in> set (map fst (commandRegistry p)). \<forall>tok. ToLower lowerCase tok = ToLower lowerCase K \<longrightarrow>
            map_of (commandRegistry p) (ToLower lowerCase tok) = map_of (commandRegistry p) K \<and>
            map_of (commandRegistry p) (ToLower lowerCase tok) \<noteq> None)"
proof -
  have reg: "commandRegistry p = init commandRegistry_literal"
    using assms by (auto simp add: startup_def startup_from_def Let_def split: if_splits)
  have low: "ToLower lowerCase K = K" if "K \<in> set (map fst (commandRegistry p))" for K
    using that ToLower_keys unfolding reg registry_keys by auto
  have dom: "map_of (commandRegistry p) K \<noteq> None" if "K \<in> set (map fst (commandRegistry p))" for K
    using that by (simp add: map_of_eq_None_iff)
  from low dom show ?thesis by auto
qed

theorem registry_keys_lowercase_witness:
  "ToLower example_LowerCase ''list'' = ''list'' \<and>
   map_of (init commandRegistry_literal) (ToLower example_LowerCase ''LiSt'') = map_of (init commandRegistry_literal) ''list''"
proof -
  have s: "startup ''xoxb-1'' ''xapp-1'' = Inr running"
    by (simp add: startup_def startup_from_def running_def)
  have m: "''list'' \<in> set (map fst (commandRegistry running))"
    by (simp add: running_def registry_keys)
  have l: "ToLower example_LowerCase ''LiSt'' = ToLower example_LowerCase ''list''" by code_simp
  note inst = registry_keys_lowercase [OF s, where lowerCase = example_LowerCase]
  have a: "ToLower example_LowerCase ''list'' = ''list''"
    using inst [THEN conjunct1, rule_format, OF m] .
  have b: "map_of (init commandRegistry_literal) (ToLower example_LowerCase ''LiSt'') = map_of (init commandRegistry_literal) ''list''"
    using inst [THEN conjunct2, rule_format, OF m l, THEN conjunct1] by (simp add: running_def)
  from a b show ?thesis by (rule conjI)
qed

section \<open>The registry during the life of the process\<close>

lemma Run_registry: "commandRegistry (Run lowerCase launch p evs) = commandRegistry p"
proof (induction evs arbitrary: p)
  case Nil
  then show ?case by simp
next
  case (Cons e evs)
  obtain w event where e: "e = (w, event)" by (cases e)
  show ?case unfolding e by (simp add: Let_def Cons.IH)
qed

text \<open>
  Claim C10. After start-up the registry has the three keys \<open>launch\<close>, \<open>list\<close> and
  \<open>help\<close>, the last one stored by \<open>init\<close>; handling any sequence of messages leaves
  the registry as it is, so every enumeration of it for a help listing meets the same
  three entries.
\<close>

theorem registry_fixed:
  assumes "startup botToken appToken = Inr p"
  shows "map fst (commandRegistry p) = [''launch'', ''list'', ''help''] \<and>
         map_of commandRegistry_literal ''help'' = None \<and>
         commandRegistry (Run lowerCase launch p evs) = commandRegistry p \<and>
         (\<forall>w. is_range_order (commandRegistry p) (rangeCommands w) \<longrightarrow>
              mset (range_map (commandRegistry (Run lowerCase launch p evs)) (rangeCommands w)) =
              mset (commandRegistry p))"
proof -
  have reg: "commandRegistry p = init commandRegistry_literal"
    using assms by (auto simp add: startup_def startup_from_def Let_def split: if_splits)
  have keys: "map fst (commandRegistry p) = [''launch'', ''list'', ''help'']"
    by (simp add: reg registry_keys)
  have nohelp: "map_of commandRegistry_literal ''help'' = None"
    by (simp add: commandRegistry_literal_def)
  have dist: "distinct (map fst (commandRegistry p))"
    by (simp add: keys)
  have "mset (range_map (commandRegistry (Run lowerCase launch p evs)) (rangeCommands w)) = mset (commandRegistry p)"
    if "is_range_order (commandRegistry p) (rangeCommands w)" for w
    using range_map_mset [OF dist that] by (simp add: Run_registry)
  with keys nohelp Run_registry show ?thesis by blast
qed

theorem registry_fixed_witness:
  "map fst (commandRegistry
     (Run example_LowerCase (HandleLaunch_part_002 example_LowerCase) running
        [(quiet_world, message_from [] ''launch k8s large''), (quiet_world, message_from [] ''help'')])) =
   [''launch'', ''list'', ''help''] \<and>
   mset (range_map (commandRegistry
     (Run example_LowerCase (HandleLaunch_part_002 example_LowerCase) running
        [(quiet_world, message_from [] ''launch k8s large''), (quiet_world, message_from [] ''help'')]))
     (rangeCommands quiet_world)) = mset (commandRegistry running)"
proof -
  have s: "startup ''xoxb-1'' ''xapp-1'' = Inr running"
    by (simp add: startup_def startup_from_def running_def)
  have ord: "is_range_order (commandRegistry running) (rangeCommands quiet_world)"
    by (simp add: is_range_order_def running_def registry_keys quiet_world_def)
  note inst = registry_fixed [OF s, where lowerCase = example_LowerCase
      and launch = "HandleLaunch_part_002 example_LowerCase" and evs =
      "[(quiet_world, message_from [] ''launch k8s large''), (quiet_world, message_from [] ''help'')]"]
  have keys: "map fst (commandRegistry
     (Run example_LowerCase (HandleLaunch_part_002 example_LowerCase) running
        [(quiet_world, message_from [] ''launch k8s large''), (quiet_world, message_from [] ''help'')])) =
   [''launch'', ''list'', ''help'']"
    using inst [THEN conjunct1] inst [THEN conjunct2, THEN conjunct2, THEN conjunct1]
    by (simp only:)
  from keys inst [THEN conjunct2, THEN conjunct2, THEN conjunct2, rule_format, OF ord]
  show ?thesis by (rule conjI)
qed

section \<open>The listing of the list handler\<close>

lemma isDigit_digit: "d < 10 \<Longrightarrow> isDigit (digit d)"
  by (simp add: isDigit_def digit_def)

lemma itoa_digits: "list_all isDigit (itoa n)"
proof (induction n rule: itoa.induct)
  case (1 n)
  show ?case
  proof (cases "n < 10")
    case True
    then show ?thesis by (subst itoa.simps) (simp add: isDigit_digit)
  next
    case False
    with 1 have "list_all isDigit (itoa (n div 10))" by simp
    with False show ?thesis by (subst itoa.simps) (simp add: isDigit_digit)
  qed
qed

lemma itoa_length: "0 < k \<Longrightarrow> n < 10 ^ k \<Longrightarrow> length (itoa n) \<le> k"
proof (induction n arbitrary: k rule: itoa.induct)
  case (1 n)
  show ?case
  proof (cases "n < 10")
    case True
    with 1(2) show ?thesis by (subst itoa.simps) simp
  next
    case False
    obtain j where k: "k = Suc j" using 1(2) by (cases k) auto
    have "0 < j"
    proof (rule ccontr)
      assume "\<not> 0 < j"
      with k 1(3) False show False by simp
    qed
    moreover have "n div 10 < 10 ^ j"
      using 1(3) k by (simp add: less_mult_imp_div_less mult.commute)
    ultimately have "length (itoa (n div 10)) \<le> j"
      using 1(1) False by simp
    with False k show ?thesis by (subst itoa.simps) simp
  qed
qed

lemma has_shape_append:
  "has_shape p1 s1 \<Longrightarrow> has_shape p2 s2 \<Longrightarrow> has_shape (p1 @ p2) (s1 @ s2)"
  by (simp add: has_shape_def list_all2_appendI)

lemma has_shape_digits:
  "length s = k \<Longrightarrow> list_all isDigit s \<Longrightarrow> has_shape (replicate k (CHR ''d'')) s"
  by (simp add: has_shape_def list_all2_conv_all_nth list_all_length)

lemma appendInt_shape:
  assumes "0 < k" and "n < 10 ^ k"
  shows "has_shape (replicate k (CHR ''d'')) (appendInt (int n) k)"
proof -
  have len: "length (itoa n) \<le> k" using assms by (rule itoa_length)
  have zero: "isDigit (CHR ''0'')" by (simp add: isDigit_def)
  have "length (appendInt (int n) k) = k"
    using len by (simp add: appendInt_def Let_def)
  moreover have "list_all isDigit (appendInt (int n) k)"
    using itoa_digits [of n] zero by (auto simp add: appendInt_def Let_def list_all_iff)
  ultimately show ?thesis by (rule has_shape_digits)
qed

lemma has_shape_lit: "c \<noteq> CHR ''d'' \<Longrightarrow> has_shape [c] [c]"
  by (simp add: has_shape_def)

lemma Format_shape:
  assumes "valid_time t"
  shows "has_shape ''dddd-dd-dd dd:dd:dd'' (Format t)"
proof -
  have "0 \<le> year t" "year t \<le> 9999" using assms by (simp_all add: valid_time_def)
  then have y: "year t = int (nat (year t))" "nat (year t) < 10 ^ 4"
    by simp_all
  have m: "month t < 10 ^ 2" "day t < 10 ^ 2" "hour t < 10 ^ 2" "minute t < 10 ^ 2" "second t < 10 ^ 2"
    using assms by (simp_all add: valid_time_def)
  have rep: "replicate 4 c = [c, c, c, c]" "replicate 2 c = [c, c]" for c :: char
    by (simp_all add: numeral_eq_Suc)
  have "has_shape (replicate 4 (CHR ''d'')) (appendInt (int (nat (year t))) 4)"
    using y(2) by (intro appendInt_shape) simp_all
  then have four: "has_shape ''dddd'' (appendInt (year t) 4)"
    using y(1) by (simp only: rep)
  have two: "has_shape ''dd'' (appendInt (int n) 2)" if "n < 10 ^ 2" for n
  proof -
    have "has_shape (replicate 2 (CHR ''d'')) (appendInt (int n) 2)"
      using that by (intro appendInt_shape) simp_all
    then show ?thesis by (simp only: rep)
  qed
  have "has_shape (''dddd'' @ ''-'' @ ''dd'' @ ''-'' @ ''dd'' @ '' '' @ ''dd'' @ '':'' @ ''dd'' @ '':'' @ ''dd'')
          (Format t)"
    unfolding Format_def
    by (intro has_shape_append four two m has_shape_lit) simp_all
  then show ?thesis by simp
qed


lemma writeClusters_entries:
  "writeClusters kind n cs (msg, i) =
     (msg @ entries_from n i (map (clusterEntry kind) cs), i + length cs)"
  by (induction cs arbitrary: msg i) simp_all

lemma entries_from_append:
  "entries_from n i (xs @ ys) = entries_from n i xs @ entries_from n (i + length xs) ys"
  by (induction xs arbitrary: i) simp_all

lemma entries_from_join: "n = i + length es \<Longrightarrow> entries_from n i es = spec_join es"
proof (induction es arbitrary: i rule: spec_join.induct)
  case 1
  then show ?case by simp
next
  case (2 e)
  then show ?case by simp
next
  case (3 e e' es)
  from 3(2) have "n = Suc i + length (e' # es)" by simp
  then have "entries_from n (Suc i) (e' # es) = spec_join (e' # es)" by (rule 3(1))
  moreover have "int i < int n - 1" using 3(2) by simp
  ultimately show ?case by (simp del: entries_from.simps(2) add: entries_from.simps(2) [of n i])
qed

lemma HandleList_message:
  "fst (writeClusters ''OpenShift'' (length kinds + length oss) oss
          (writeClusters ''Kubernetes'' (length kinds + length oss) kinds
             (listHeader (length kinds + length oss), 0))) =
   listHeader (length kinds + length oss) @ spec_join (spec_entries kinds oss)"
proof -
  have "entries_from (length kinds + length oss) 0 (spec_entries kinds oss) =
      spec_join (spec_entries kinds oss)"
    by (rule entries_from_join) (simp add: spec_entries_def)
  then show ?thesis
    by (simp add: writeClusters_entries entries_from_append spec_entries_def)
qed

text \<open>
  Claim C4. When the client is there and both queries succeed, \<open>HandleList\<close> posts one
  message: the fixed empty-state text when both results are empty, and otherwise the
  header followed by one entry for each resource, the Kubernetes items first and then
  the OpenShift items, each kind in the order returned, with one blank line between
  consecutive entries and none after the last. An entry shows the name, the kind label,
  the namespace and the creation timestamp, which has the shape
  \<open>YYYY-MM-DD HH:MM:SS\<close> for every valid time.
\<close>

theorem HandleList_listing:
  assumes "getClientErr w = None" and "listKinds w = Inr kinds" and "listOpenshifts w = Inr oss"
  shows "(kinds = [] \<and> oss = [] \<longrightarrow>
            posts (HandleList w event args) = [(Channel event, emptyListMessage)]) \<and>
         (kinds \<noteq> [] \<or> oss \<noteq> [] \<longrightarrow>
            posts (HandleList w event args) =
              [(Channel event,
                listHeader (length kinds + length oss) @ spec_join (spec_entries kinds oss))]) \<and>
         length (spec_entries kinds oss) = length kinds + length oss \<and>
         (\<forall>c \<in> set kinds \<union> set oss. valid_time (CreationTimestamp c) \<longrightarrow>
            has_shape ''dddd-dd-dd dd:dd:dd'' (Format (CreationTimestamp c)))"
proof -
  have none: "kinds = [] \<and> oss = [] \<longrightarrow>
      posts (HandleList w event args) = [(Channel event, emptyListMessage)]"
    using assms by (simp add: HandleList_def postListMessage_def split: option.splits)
  have some: "kinds \<noteq> [] \<or> oss \<noteq> [] \<longrightarrow>
      posts (HandleList w event args) =
        [(Channel event,
          listHeader (length kinds + length oss) @ spec_join (spec_entries kinds oss))]"
  proof
    assume "kinds \<noteq> [] \<or> oss \<noteq> []"
    then have "length kinds + length oss \<noteq> 0" by auto
    then show "posts (HandleList w event args) =
        [(Channel event,
          listHeader (length kinds + length oss) @ spec_join (spec_entries kinds oss))]"
      using assms
      by (auto simp add: HandleList_def postListMessage_def Let_def HandleList_message
          split: option.splits)
  qed
  have len: "length (spec_entries kinds oss) = length kinds + length oss"
    by (simp add: spec_entries_def)
  have shape: "\<forall>c \<in> set kinds \<union> set oss. valid_time (CreationTimestamp c) \<longrightarrow>
      has_shape ''dddd-dd-dd dd:dd:dd'' (Format (CreationTimestamp c))"
    by (blast intro: Format_shape)
  from none some len shape show ?thesis by blast
qed

theorem HandleList_listing_witness:
  "posts (HandleList quiet_world (message_from [] ''list'') []) = [(''C1'', emptyListMessage)] \<and>
   posts (HandleList two_clusters (message_from [] ''list'') []) =
     [(''C1'',
       clipboard @ '' *Cluster List* (2 clusters)'' @ nl @ nl @
       orange_diamond @ '' *dev* (Kubernetes)'' @ nl @
       ''   '' @ bullet @ '' Namespace: team-a'' @ nl @
       ''   '' @ bullet @ '' Created: 2025-03-09 07:05:00'' @ nl @
       nl @
       orange_diamond @ '' *ocp* (OpenShift)'' @ nl @
       ''   '' @ bullet @ '' Namespace: team-b'' @ nl @
       ''   '' @ bullet @ '' Created: 2024-12-31 23:59:58'' @ nl)] \<and>
   has_shape ''dddd-dd-dd dd:dd:dd'' (Format (CreationTimestamp b_cluster))"
proof -
  have q: "getClientErr quiet_world = None" "listKinds quiet_world = Inr []"
    "listOpenshifts quiet_world = Inr []"
    by (simp_all add: quiet_world_def)
  have t: "getClientErr two_clusters = None" "listKinds two_clusters = Inr [a_cluster]"
    "listOpenshifts two_clusters = Inr [b_cluster]"
    by (simp_all add: two_clusters_def quiet_world_def)
  have r1: "posts (HandleList quiet_world (message_from [] ''list'') []) = [(''C1'', emptyListMessage)]"
    using HandleList_listing [OF q, of "message_from [] ''list''" "[]", THEN conjunct1]
    by (simp add: message_from_def)
  have fa: "Format (CreationTimestamp a_cluster) = ''2025-03-09 07:05:00''"
    by code_simp
  have fb: "Format (CreationTimestamp b_cluster) = ''2024-12-31 23:59:58''"
    by code_simp
  have two: "itoa (Suc (Suc 0)) = ''2''" by code_simp
  have names: "Name a_cluster = ''dev''" "Namespace a_cluster = ''team-a''"
    "Name b_cluster = ''ocp''" "Namespace b_cluster = ''team-b''"
    by (simp_all add: a_cluster_def b_cluster_def)
  have r2: "posts (HandleList two_clusters (message_from [] ''list'') []) =
     [(''C1'',
       clipboard @ '' *Cluster List* (2 clusters)'' @ nl @ nl @
       orange_diamond @ '' *dev* (Kubernetes)'' @ nl @
       ''   '' @ bullet @ '' Namespace: team-a'' @ nl @
       ''   '' @ bullet @ '' Created: 2025-03-09 07:05:00'' @ nl @
       nl @
       orange_diamond @ '' *ocp* (OpenShift)'' @ nl @
       ''   '' @ bullet @ '' Namespace: team-b'' @ nl @
       ''   '' @ bullet @ '' Created: 2024-12-31 23:59:58'' @ nl)]"
    using HandleList_listing [OF t, of "message_from [] ''list''" "[]", THEN conjunct2, THEN conjunct1]
    by (simp add: message_from_def listHeader_def two spec_entries_def clusterEntry_def fa fb
        names)
  have v: "valid_time (CreationTimestamp b_cluster)"
    by (simp add: valid_time_def b_cluster_def)
  have m: "b_cluster \<in> set [a_cluster] \<union> set [b_cluster]" by simp
  have r3: "has_shape ''dddd-dd-dd dd:dd:dd'' (Format (CreationTimestamp b_cluster))"
    using HandleList_listing [OF t, of "message_from [] ''list''" "[]", THEN conjunct2, THEN conjunct2,
        THEN conjunct2, rule_format, OF m v] .
  from r1 r2 r3 show ?thesis by blast
qed

end
